theory Spec2Isabelle
  imports Main "HOL-Library.AList"
begin

section \<open>Qt values\<close>

text \<open>
  A \<open>QVariant\<close> is either invalid (default constructed) or holds a string, a bool, a
  \<open>QVariantMap\<close> or a \<open>QVariantList\<close>; these are the only payloads the job stores.
  A \<open>QVariantMap\<close> is an association list with unique keys: \<open>map[k] = v\<close> is
  \<open>AList.update k v map\<close>, \<open>map.value(k)\<close> is \<open>qvalue map k\<close>.
\<close>

datatype QVariant =
    Invalid
  | VString string
  | VBool bool
  | VMap "(string \<times> QVariant) list"
  | VList "QVariant list"

type_synonym QVariantMap = "(string \<times> QVariant) list"

definition isValid :: "QVariant \<Rightarrow> bool" where
  "isValid v = (v \<noteq> Invalid)"

definition qvalue :: "QVariantMap \<Rightarrow> string \<Rightarrow> QVariant" where
  "qvalue m k = (case map_of m k of None \<Rightarrow> Invalid | Some v \<Rightarrow> v)"

definition keys :: "QVariantMap \<Rightarrow> string set" where
  "keys m = fst ` set m"

fun toString :: "QVariant \<Rightarrow> string" where
  "toString (VString s) = s"
| "toString (VBool b) = (if b then ''true'' else ''false'')"
| "toString _ = []"

fun toList :: "QVariant \<Rightarrow> QVariant list" where
  "toList (VList l) = l"
| "toList _ = []"

fun toMap :: "QVariant \<Rightarrow> QVariantMap" where
  "toMap (VMap m) = m"
| "toMap _ = []"

subsection \<open>QString operations\<close>

fun startsWith :: "string \<Rightarrow> string \<Rightarrow> bool" where
  "startsWith s [] = True"
| "startsWith [] (c # cs) = False"
| "startsWith (x # xs) (c # cs) = (x = c \<and> startsWith xs cs)"

fun contains :: "string \<Rightarrow> string \<Rightarrow> bool" where
  "contains [] sub = (sub = [])"
| "contains (x # xs) sub = (startsWith (x # xs) sub \<or> contains xs sub)"

text \<open>\<open>QChar::isSpace\<close> on the code points \<open>0..255\<close>.\<close>

definition isSpace :: "char \<Rightarrow> bool" where
  "isSpace c = (let n = of_char c :: nat in
     n = 0x20 \<or> (0x09 \<le> n \<and> n \<le> 0x0d) \<or> n = 0x85 \<or> n = 0xa0)"

definition trimmed :: "string \<Rightarrow> string" where
  "trimmed s = rev (dropWhile isSpace (rev (dropWhile isSpace s)))"

text \<open>\<open>s.split(c)\<close> with the default \<open>KeepEmptyParts\<close>: never an empty list.\<close>

fun split :: "string \<Rightarrow> char \<Rightarrow> string list" where
  "split [] c = [[]]"
| "split (x # xs) c =
     (if x = c then [] # split xs c
      else (case split xs c of [] \<Rightarrow> [[x]] | y # ys \<Rightarrow> (x # y) # ys))"

fun join :: "string list \<Rightarrow> string \<Rightarrow> string" where
  "join [] sep = []"
| "join [x] sep = x"
| "join (x # y # ys) sep = x @ sep @ join (y # ys) sep"

text \<open>
  \<open>s.arg( a )\<close>: a place marker is \<open>%\<close>, an optional \<open>L\<close>, and one or two digits;
  every marker carrying the lowest number in \<open>s\<close> is replaced by \<open>a\<close>, and a string
  with no marker is returned as it is. \<open>marker cs\<close> reads the text after a \<open>%\<close> and
  gives the marker's number and how many characters it takes.
\<close>

definition digitValue :: "char \<Rightarrow> nat option" where
  "digitValue c = (let n = of_char c :: nat in if 48 \<le> n \<and> n \<le> 57 then Some (n - 48) else None)"

definition marker :: "string \<Rightarrow> (nat \<times> nat) option" where
  "marker cs =
     (let (l, ds) = (case cs of [] \<Rightarrow> (0, []) | c # r \<Rightarrow> if c = CHR ''L'' then (1, r) else (0, cs))
      in case ds of
           [] \<Rightarrow> None
         | d1 # r \<Rightarrow>
             (case digitValue d1 of
                None \<Rightarrow> None
              | Some v1 \<Rightarrow>
                  (case r of
                     [] \<Rightarrow> Some (v1, l + 1)
                   | d2 # r' \<Rightarrow>
                       (case digitValue d2 of
                          None \<Rightarrow> Some (v1, l + 1)
                        | Some v2 \<Rightarrow> Some (10 * v1 + v2, l + 2)))))"

function findArgEscapes :: "string \<Rightarrow> (string \<times> nat option) list" where
  "findArgEscapes [] = []"
| "findArgEscapes (c # cs) =
     (if c = CHR ''%''
      then (case marker cs of
              None \<Rightarrow> ([c], None) # findArgEscapes cs
            | Some (n, k) \<Rightarrow> (c # take k cs, Some n) # findArgEscapes (drop k cs))
      else ([c], None) # findArgEscapes cs)"
  by pat_completeness auto
termination
  by (relation "measure length") auto

definition QString_arg :: "string \<Rightarrow> string \<Rightarrow> string" where
  "QString_arg s a =
     (let pieces = findArgEscapes s;
          numbers = List.map_filter snd pieces
      in if numbers = [] then s
         else concat (map (\<lambda>(raw, e). if e = Some (Min (set numbers)) then a else raw) pieces))"

section \<open>The partitioning library's objects\<close>

text \<open>
  A \<open>FileSystem\<close> object is either an \<open>FS::luks\<close> instance, with its reported
  \<open>type()\<close>, \<open>innerFS()\<close> (a possibly null pointer), \<open>mapperName()\<close> and
  \<open>passphrase()\<close>, or an instance of another class. The type tag \<open>Luks\<close> is reported by
  \<open>FS::luks\<close> objects only, so an object of another class carries the number of one
  of the other enumerators of \<open>FileSystem::Type\<close>; this is why the reference cast
  \<open>dynamic_cast< FS::luks& >\<close> behind the test \<open>type() == FileSystem::Luks\<close>
  has no failing branch.
\<close>

datatype FileSystem_Type = Luks | OtherType nat

datatype FileSystem =
    PlainFS nat
  | LuksFS FileSystem_Type "FileSystem option" string string

fun fs_type :: "FileSystem \<Rightarrow> FileSystem_Type" where
  "fs_type (PlainFS n) = OtherType n"
| "fs_type (LuksFS t inner mapper pass) = t"

text \<open>\<open>dynamic_cast< const FS::luks* >\<close>: \<open>None\<close> is the null pointer.\<close>

fun dynamic_cast_luks :: "FileSystem \<Rightarrow> FileSystem option" where
  "dynamic_cast_luks (PlainFS n) = None"
| "dynamic_cast_luks (LuksFS t inner mapper pass) = Some (LuksFS t inner mapper pass)"

text \<open>
  The accessors of \<open>FS::luks\<close>. They are only called on an object that passed one of the
  two casts; the equations for \<open>PlainFS\<close> make them total.
\<close>

fun innerFS :: "FileSystem \<Rightarrow> FileSystem option" where
  "innerFS (LuksFS t inner mapper pass) = inner"
| "innerFS (PlainFS n) = None"

fun mapperName :: "FileSystem \<Rightarrow> string" where
  "mapperName (LuksFS t inner mapper pass) = mapper"
| "mapperName (PlainFS n) = []"

fun passphrase :: "FileSystem \<Rightarrow> string" where
  "passphrase (LuksFS t inner mapper pass) = pass"
| "passphrase (PlainFS n) = []"

datatype PartitionRole = Primary | Extended | Logical | Unallocated | RoleLuks | Lvm_Lv | Lvm_PV

datatype Partition_State = StateNone | StateNew | StateCopy | StateRestore

text \<open>
  \<open>mountPoint\<close> is what \<open>PartitionInfo::mountPoint( partition )\<close> reads from the
  partition object; \<open>partitions\<close> of a device is the sequence that
  \<open>PartitionIterator::begin( device ) .. PartitionIterator::end( device )\<close> visits.
\<close>

record Partition =
  partitionPath :: string
  mountPoint :: string
  fileSystem :: FileSystem
  roles :: "PartitionRole list"
  state :: Partition_State

record Device =
  deviceNode :: string
  partitions :: "Partition list"

definition has :: "PartitionRole list \<Rightarrow> PartitionRole \<Rightarrow> bool" where
  "has rs r = (r \<in> set rs)"

section \<open>The environment of the job\<close>

datatype ExitStatus = NormalExit | CrashExit

record QProcess =
  exitStatus :: ExitStatus
  exitCode :: int
  readAllStandardOutput :: "char list"

text \<open>
  What the job reads from outside its own code: the filesystem naming helpers of
  \<open>KPMHelpers\<close>, the UUID a filesystem driver reads from a partition path, the outcome
  of running a program with arguments until it finishes, the local 8-bit decoder, the
  branding's short product name, and the translation of a source string.
\<close>

record Environment =
  userVisibleFS :: "FileSystem \<Rightarrow> string"
  untranslatedFS :: "FileSystem \<Rightarrow> string"
  readUUID :: "FileSystem \<Rightarrow> string \<Rightarrow> string"
  run :: "string \<Rightarrow> string list \<Rightarrow> QProcess"
  fromLocal8Bit :: "char list \<Rightarrow> string"
  ShortProductName :: string
  tr :: "string \<Rightarrow> string"

section \<open>FillGlobalStorageJob\<close>

type_synonym UuidForPartitionHash = "string \<rightharpoonup> string"

definition hash_value :: "UuidForPartitionHash \<Rightarrow> string \<Rightarrow> string" where
  "hash_value hash k = (case hash k of None \<Rightarrow> [] | Some v \<Rightarrow> v)"

definition findPartitionUuids :: "Environment \<Rightarrow> Device list \<Rightarrow> UuidForPartitionHash" where
  "findPartitionUuids env devices =
     fold (\<lambda>device hash.
        fold (\<lambda>p hash.
           let path = partitionPath p;
               uuid = readUUID env (fileSystem p) (partitionPath p)
           in hash(path \<mapsto> uuid))
          (partitions device) hash)
       devices Map.empty"

definition getLuksUuid :: "Environment \<Rightarrow> string \<Rightarrow> string" where
  "getLuksUuid env path =
     (let process = run env ''cryptsetup'' [''luksUUID'', path]
      in if exitStatus process \<noteq> NormalExit \<or> exitCode process \<noteq> 0
         then []
         else trimmed (fromLocal8Bit env (readAllStandardOutput process)))"

definition mapForPartition :: "Environment \<Rightarrow> Partition \<Rightarrow> string \<Rightarrow> QVariant" where
  "mapForPartition env p uuid =
     (let m0 = AList.update ''device'' (VString (partitionPath p)) [];
          m1 = AList.update ''mountPoint'' (VString (mountPoint p)) m0;
          m2 = AList.update ''fsName'' (VString (userVisibleFS env (fileSystem p))) m1;
          m3 = AList.update ''fs'' (VString (untranslatedFS env (fileSystem p))) m2;
          m4 = (if fs_type (fileSystem p) = Luks
                then (case innerFS (fileSystem p) of
                        Some inner \<Rightarrow> AList.update ''fs'' (VString (untranslatedFS env inner)) m3
                      | None \<Rightarrow> m3)
                else m3);
          m5 = AList.update ''uuid'' (VString uuid) m4;
          m6 = AList.update ''new'' (VBool (state p = StateNew)) m5;
          m7 = (if has (roles p) RoleLuks
                then (case dynamic_cast_luks (fileSystem p) of
                        Some luksFs \<Rightarrow>
                          AList.update ''luksPassphrase'' (VString (passphrase luksFs))
                            (AList.update ''luksUuid''
                               (VString (getLuksUuid env (partitionPath p)))
                               (AList.update ''luksMapperName''
                                  (VString (last (split (mapperName luksFs) CHR ''/''))) m6))
                      | None \<Rightarrow> m6)
                else m6)
      in VMap m7)"

definition createPartitionList :: "Environment \<Rightarrow> Device list \<Rightarrow> QVariant" where
  "createPartitionList env devices =
     (let hash = findPartitionUuids env devices
      in VList (fold (\<lambda>device lst.
                   fold (\<lambda>p lst. lst @ [mapForPartition env p (hash_value hash (partitionPath p))])
                     (partitions device) lst)
                 devices []))"

text \<open>
  Modelled from the spec: \<open>KPMHelpers::findPartitionByMountPoint\<close> is not among the
  sources. The spec resolves a mount point "to the device path of the partition currently
  mapped to that mount point among the given devices" and has "no match" as the other
  outcome: the first partition, in device order, whose mount point is the given string,
  or the null pointer.
\<close>

definition findPartitionByMountPoint :: "Device list \<Rightarrow> string \<Rightarrow> Partition option" where
  "findPartitionByMountPoint devices mp =
     List.find (\<lambda>p. mountPoint p = mp) (concat (map partitions devices))"

definition createBootLoaderMap :: "Device list \<Rightarrow> string \<Rightarrow> QVariant" where
  "createBootLoaderMap devices bootLoaderPath =
     (if \<not> startsWith bootLoaderPath ''/dev/''
      then (case findPartitionByMountPoint devices bootLoaderPath of
              None \<Rightarrow> Invalid
            | Some p \<Rightarrow> VMap (AList.update ''installPath'' (VString (partitionPath p)) []))
      else VMap (AList.update ''installPath'' (VString bootLoaderPath) []))"

datatype JobResult = ok | error string string

text \<open>
  Modelled from the spec: the class \<open>Calamares::GlobalStorage\<close> is not among the sources.
  The spec has it as a "string-keyed shared store" in which the job persists its values
  "under fixed keys, overwriting any previous values": a map from keys to values, and
  \<open>insert\<close> as the update of one key.
\<close>

type_synonym GlobalStorage = "string \<rightharpoonup> QVariant"

definition insert_gs :: "GlobalStorage \<Rightarrow> string \<Rightarrow> QVariant \<Rightarrow> GlobalStorage" where
  "insert_gs storage k v = storage(k \<mapsto> v)"

definition exec :: "Environment \<Rightarrow> Device list \<Rightarrow> string \<Rightarrow> GlobalStorage \<Rightarrow> GlobalStorage \<times> JobResult" where
  "exec env devices bootLoaderPath storage =
     (let s1 = insert_gs storage ''partitions'' (createPartitionList env devices);
          s2 = (if bootLoaderPath \<noteq> []
                then (let var = createBootLoaderMap devices bootLoaderPath
                      in insert_gs s1 ''bootLoader'' var)
                else insert_gs s1 ''bootLoader'' Invalid)
      in (s2, ok))"

subsection \<open>The description shown before the job runs\<close>

text \<open>
  A line \<open>tr( t ).arg( a ).arg( b )\<close> is kept as the source text \<open>t\<close> and the arguments
  in call order; \<open>render\<close> applies the translation and the substitutions.
\<close>

datatype Line = Line string "string list"

fun template :: "Line \<Rightarrow> string" where
  "template (Line t as) = t"

fun arguments :: "Line \<Rightarrow> string list" where
  "arguments (Line t as) = as"

definition render :: "Environment \<Rightarrow> Line \<Rightarrow> string" where
  "render env l = foldl QString_arg (tr env (template l)) (arguments l)"

fun partitionLine :: "Environment \<Rightarrow> QVariant \<Rightarrow> Line option" where
  "partitionLine env (VMap partitionMap) =
     (let path = toString (qvalue partitionMap ''device'');
          mountPoint = toString (qvalue partitionMap ''mountPoint'');
          fsType = toString (qvalue partitionMap ''fs'')
      in if mountPoint = [] \<or> fsType = [] then None
         else if path = []
         then (if mountPoint = ''/''
               then Some (Line ''Install %1 on <strong>new</strong> %2 system partition.''
                            [ShortProductName env, fsType])
               else Some (Line ''Set up <strong>new</strong> %2 partition with mount point <strong>%1</strong>.''
                            [mountPoint, fsType]))
         else (if mountPoint = ''/''
               then Some (Line ''Install %2 on %3 system partition <strong>%1</strong>.''
                            [path, ShortProductName env, fsType])
               else Some (Line ''Set up %3 partition <strong>%1</strong> with mount point <strong>%2</strong>.''
                            [path, mountPoint, fsType])))"
| "partitionLine env _ = None"

definition prettyDescription_lines :: "Environment \<Rightarrow> Device list \<Rightarrow> string \<Rightarrow> Line list" where
  "prettyDescription_lines env devices bootLoaderPath =
     (let partitionList = toList (createPartitionList env devices);
          lines = fold (\<lambda>partitionItem lines.
                     case partitionLine env partitionItem of
                       None \<Rightarrow> lines
                     | Some l \<Rightarrow> lines @ [l])
                   partitionList [];
          bootloaderMap = createBootLoaderMap devices bootLoaderPath
      in if bootLoaderPath \<noteq> []
         then lines @ [Line ''Install boot loader on <strong>%1</strong>.'' [bootLoaderPath]]
         else lines)"

definition prettyDescription :: "Environment \<Rightarrow> Device list \<Rightarrow> string \<Rightarrow> string" where
  "prettyDescription env devices bootLoaderPath =
     join (map (render env) (prettyDescription_lines env devices bootLoaderPath)) ''<br/>''"

text \<open>
  The two ways a line can be worded that the summary's readers tell apart: a line speaks
  of the system partition, and a line speaks of a new partition.
\<close>

definition systemPartitionPhrasing :: "Line \<Rightarrow> bool" where
  "systemPartitionPhrasing l = contains (template l) ''system partition''"

definition newPhrasing :: "Line \<Rightarrow> bool" where
  "newPhrasing l = contains (template l) ''<strong>new</strong>''"

subsection \<open>A concrete installation\<close>

text \<open>
  One disk with an ext4 root partition and a LUKS container holding an ext4 \<open>/home\<close>;
  \<open>cryptsetup luksUUID\<close> answers for the container only. Filesystem names depend on the
  reported type alone.
\<close>

definition example_fs_name :: "FileSystem \<Rightarrow> string" where
  "example_fs_name fs =
     (case fs_type fs of
        Luks \<Rightarrow> ''luks''
      | OtherType n \<Rightarrow> if n = 4 then ''ext4'' else if n = 28 then ''luks2'' else ''unknown'')"

definition example_run :: "string \<Rightarrow> string list \<Rightarrow> QProcess" where
  "example_run program args =
     (if program = ''cryptsetup'' \<and> args = [''luksUUID'', ''/dev/sda2'']
      then \<lparr>exitStatus = NormalExit, exitCode = 0,
            readAllStandardOutput = ''0a1b2c3d-feed'' @ [CHR 0x0A]\<rparr>
      else \<lparr>exitStatus = NormalExit, exitCode = 1, readAllStandardOutput = []\<rparr>)"

definition example_env :: Environment where
  "example_env =
     \<lparr>userVisibleFS = example_fs_name,
      untranslatedFS = example_fs_name,
      readUUID = (\<lambda>fs path. if path = ''/dev/sda1'' then ''1111-2222'' else []),
      run = example_run,
      fromLocal8Bit = (\<lambda>bytes. bytes),
      ShortProductName = ''Linux'',
      tr = (\<lambda>s. s)\<rparr>"

definition example_root :: Partition where
  "example_root =
     \<lparr>partitionPath = ''/dev/sda1'', mountPoint = ''/'', fileSystem = PlainFS 4,
      roles = [Primary], state = StateNone\<rparr>"

definition example_luks :: Partition where
  "example_luks =
     \<lparr>partitionPath = ''/dev/sda2'', mountPoint = ''/home'',
      fileSystem = LuksFS Luks (Some (PlainFS 4)) ''/dev/mapper/luks-home'' ''secret'',
      roles = [Primary, RoleLuks], state = StateNew\<rparr>"

text \<open>
  A further container, not on the disk above: an \<open>FS::luks\<close> object of the LUKS2 kind,
  which reports its own type tag and not \<open>Luks\<close>.
\<close>

definition example_luks2 :: Partition where
  "example_luks2 =
     \<lparr>partitionPath = ''/dev/sda3'', mountPoint = ''/srv'',
      fileSystem = LuksFS (OtherType 28) (Some (PlainFS 4)) ''/dev/mapper/luks-srv'' ''secret'',
      roles = [Primary, RoleLuks], state = StateNew\<rparr>"

definition example_devices :: "Device list" where
  "example_devices = [\<lparr>deviceNode = ''/dev/sda'', partitions = [example_root, example_luks]\<rparr>]"

section \<open>Properties\<close>

subsection \<open>Trimming\<close>

lemma trimmed_decomp:
  "\<exists>pre suf. s = pre @ trimmed s @ suf \<and> (\<forall>c\<in>set pre. isSpace c) \<and> (\<forall>c\<in>set suf. isSpace c)"
proof -
  let ?pre = "takeWhile isSpace s"
  let ?mid = "dropWhile isSpace s"
  let ?suf = "rev (takeWhile isSpace (rev ?mid))"
  have 1: "s = ?pre @ ?mid" by simp
  have "rev ?mid = takeWhile isSpace (rev ?mid) @ dropWhile isSpace (rev ?mid)" by simp
  then have "?mid = rev (dropWhile isSpace (rev ?mid)) @ ?suf"
    by (metis rev_append rev_rev_ident)
  then have 2: "?mid = trimmed s @ ?suf" by (simp only: trimmed_def)
  have 3: "\<forall>c\<in>set ?pre. isSpace c" by (meson set_takeWhileD)
  have 4: "\<forall>c\<in>set ?suf. isSpace c" by (metis set_rev set_takeWhileD)
  from 1 2 have "s = ?pre @ trimmed s @ ?suf" by metis
  with 3 4 show ?thesis by blast
qed

lemma last_dropWhile: "dropWhile P xs \<noteq> [] \<Longrightarrow> last (dropWhile P xs) = last xs"
  by (induction xs) (auto split: if_splits)

lemma trimmed_ends:
  assumes "trimmed s \<noteq> []"
  shows "\<not> isSpace (hd (trimmed s)) \<and> \<not> isSpace (last (trimmed s))"
proof -
  let ?mid = "dropWhile isSpace s"
  let ?d = "dropWhile isSpace (rev ?mid)"
  from assms have d: "?d \<noteq> []" by (simp add: trimmed_def)
  then have mid: "?mid \<noteq> []" by (metis dropWhile.simps(1) rev_is_Nil_conv)
  have "last (trimmed s) = hd ?d" using d by (simp add: trimmed_def last_rev)
  moreover have "\<not> isSpace (hd ?d)" using d by (rule hd_dropWhile)
  moreover have "hd (trimmed s) = last ?d" using d by (simp add: trimmed_def hd_rev)
  moreover have "last ?d = last (rev ?mid)" using d by (rule last_dropWhile)
  moreover have "last (rev ?mid) = hd ?mid" using mid by (simp add: last_rev)
  moreover have "\<not> isSpace (hd ?mid)" using mid by (rule hd_dropWhile)
  ultimately show ?thesis by simp
qed

subsection \<open>The LUKS UUID query\<close>

text \<open>
  C5: \<open>getLuksUuid\<close> returns the empty string when the \<open>cryptsetup luksUUID\<close> process
  did not exit normally or exited with a non-zero code. Otherwise it returns the standard
  output, decoded from the local encoding and trimmed: the decoded output is the result
  between two runs of whitespace, and a non-empty result neither starts nor ends with
  whitespace.
\<close>

theorem getLuksUuid_result:
  "(exitStatus (run env ''cryptsetup'' [''luksUUID'', path]) \<noteq> NormalExit
      \<or> exitCode (run env ''cryptsetup'' [''luksUUID'', path]) \<noteq> 0
     \<longrightarrow> getLuksUuid env path = [])
   \<and> (exitStatus (run env ''cryptsetup'' [''luksUUID'', path]) = NormalExit
      \<and> exitCode (run env ''cryptsetup'' [''luksUUID'', path]) = 0
     \<longrightarrow> getLuksUuid env path
           = trimmed (fromLocal8Bit env (readAllStandardOutput (run env ''cryptsetup'' [''luksUUID'', path])))
       \<and> (\<exists>pre suf. fromLocal8Bit env (readAllStandardOutput (run env ''cryptsetup'' [''luksUUID'', path]))
              = pre @ getLuksUuid env path @ suf
            \<and> (\<forall>c\<in>set pre. isSpace c) \<and> (\<forall>c\<in>set suf. isSpace c))
       \<and> (getLuksUuid env path \<noteq> []
            \<longrightarrow> \<not> isSpace (hd (getLuksUuid env path)) \<and> \<not> isSpace (last (getLuksUuid env path))))"
proof (intro conjI impI)
  assume "exitStatus (run env ''cryptsetup'' [''luksUUID'', path]) \<noteq> NormalExit
      \<or> exitCode (run env ''cryptsetup'' [''luksUUID'', path]) \<noteq> 0"
  then show "getLuksUuid env path = []" by (auto simp: getLuksUuid_def Let_def)
next
  assume ok: "exitStatus (run env ''cryptsetup'' [''luksUUID'', path]) = NormalExit
      \<and> exitCode (run env ''cryptsetup'' [''luksUUID'', path]) = 0"
  then show eq: "getLuksUuid env path
           = trimmed (fromLocal8Bit env (readAllStandardOutput (run env ''cryptsetup'' [''luksUUID'', path])))"
    by (simp add: getLuksUuid_def Let_def)
  show "\<exists>pre suf. fromLocal8Bit env (readAllStandardOutput (run env ''cryptsetup'' [''luksUUID'', path]))
              = pre @ getLuksUuid env path @ suf
            \<and> (\<forall>c\<in>set pre. isSpace c) \<and> (\<forall>c\<in>set suf. isSpace c)"
    unfolding eq by (rule trimmed_decomp)
  assume "getLuksUuid env path \<noteq> []"
  then show "\<not> isSpace (hd (getLuksUuid env path))" "\<not> isSpace (last (getLuksUuid env path))"
    unfolding eq using trimmed_ends by blast+
qed

theorem getLuksUuid_result_witness:
  "exitStatus (run example_env ''cryptsetup'' [''luksUUID'', ''/dev/sda2'']) = NormalExit
   \<and> exitCode (run example_env ''cryptsetup'' [''luksUUID'', ''/dev/sda2'']) = 0
   \<and> getLuksUuid example_env ''/dev/sda2'' = ''0a1b2c3d-feed''
   \<and> \<not> isSpace (hd (getLuksUuid example_env ''/dev/sda2''))
   \<and> exitCode (run example_env ''cryptsetup'' [''luksUUID'', ''/dev/sda1'']) \<noteq> 0
   \<and> getLuksUuid example_env ''/dev/sda1'' = []"
  using getLuksUuid_result [of example_env "''/dev/sda2''"]
        getLuksUuid_result [of example_env "''/dev/sda1''"]
  by (simp add: example_env_def example_run_def trimmed_def isSpace_def)

subsection \<open>The boot loader record\<close>

text \<open>
  C4: for a boot loader path that starts with \<open>/dev/\<close>, \<open>createBootLoaderMap\<close> returns the
  record whose only field \<open>installPath\<close> is that path, whatever the devices are: no mount
  point is looked up.
\<close>

theorem createBootLoaderMap_device_path:
  "startsWith path ''/dev/'' \<Longrightarrow>
     createBootLoaderMap devices path = VMap [(''installPath'', VString path)]
     \<and> qvalue (toMap (createBootLoaderMap devices path)) ''installPath'' = VString path"
  by (simp add: createBootLoaderMap_def qvalue_def)

theorem createBootLoaderMap_device_path_witness:
  "startsWith ''/dev/sda'' ''/dev/''
   \<and> createBootLoaderMap example_devices ''/dev/sda'' = VMap [(''installPath'', VString ''/dev/sda'')]
   \<and> qvalue (toMap (createBootLoaderMap example_devices ''/dev/sda'')) ''installPath''
       = VString ''/dev/sda''"
proof -
  have h: "startsWith ''/dev/sda'' ''/dev/''" by simp
  from createBootLoaderMap_device_path [OF h, of example_devices] h show ?thesis
    by (intro conjI) (erule conjE, assumption)+
qed

subsection \<open>Partition records\<close>

lemma qvalue_update:
  "qvalue (AList.update k v m) k' = (if k' = k then v else qvalue m k')"
  by (simp add: qvalue_def update_conv')

lemma keys_update: "keys (AList.update k v m) = insert k (keys m)"
  by (simp add: keys_def dom_update)

lemma keys_Nil: "keys [] = {}"
  by (simp add: keys_def)

lemma mapForPartition_is_map:
  "mapForPartition env p uuid = VMap (toMap (mapForPartition env p uuid))"
  by (simp add: mapForPartition_def Let_def)

lemma mapForPartition_distinct:
  "distinct (map fst (toMap (mapForPartition env p uuid)))"
  by (simp add: mapForPartition_def Let_def distinct_update split: option.splits
      del: AList.update.simps)

lemma mapForPartition_keys_eq:
  "keys (toMap (mapForPartition env p uuid))
       = {''device'', ''mountPoint'', ''fsName'', ''fs'', ''uuid'', ''new''}
         \<union> (if has (roles p) RoleLuks \<and> dynamic_cast_luks (fileSystem p) \<noteq> None
            then {''luksMapperName'', ''luksUuid'', ''luksPassphrase''} else {})"
  unfolding mapForPartition_def Let_def
  by (cases "innerFS (fileSystem p)"; cases "dynamic_cast_luks (fileSystem p)")
     (auto simp: keys_update keys_Nil simp del: AList.update.simps)

lemma example_luks_record:
  "mapForPartition example_env example_luks [] =
     VMap [(''device'', VString ''/dev/sda2''), (''mountPoint'', VString ''/home''),
           (''fsName'', VString ''luks''), (''fs'', VString ''ext4''),
           (''uuid'', VString []), (''new'', VBool True),
           (''luksMapperName'', VString ''luks-home''),
           (''luksUuid'', VString ''0a1b2c3d-feed''),
           (''luksPassphrase'', VString ''secret'')]"
  by (simp add: mapForPartition_def example_env_def example_luks_def example_fs_name_def
      has_def getLuksUuid_def example_run_def trimmed_def isSpace_def)


lemma example_luks2_record:
  "mapForPartition example_env example_luks2 [] =
     VMap [(''device'', VString ''/dev/sda3''), (''mountPoint'', VString ''/srv''),
           (''fsName'', VString ''luks2''), (''fs'', VString ''luks2''),
           (''uuid'', VString []), (''new'', VBool True),
           (''luksMapperName'', VString ''luks-srv''),
           (''luksUuid'', VString []),
           (''luksPassphrase'', VString ''secret'')]"
  by (simp add: mapForPartition_def example_env_def example_luks2_def example_fs_name_def
      has_def getLuksUuid_def example_run_def trimmed_def isSpace_def)

text \<open>
  C10: a record made by \<open>mapForPartition\<close> is a map with distinct keys, which are
  \<open>device\<close>, \<open>mountPoint\<close>, \<open>fsName\<close>, \<open>fs\<close>, \<open>uuid\<close> and \<open>new\<close>, together with
  \<open>luksMapperName\<close>, \<open>luksUuid\<close> and \<open>luksPassphrase\<close> exactly when the partition has the
  LUKS role and its filesystem object is an \<open>FS::luks\<close> instance. With the LUKS role and
  a filesystem object of another class, none of the three LUKS keys is there.
\<close>

theorem mapForPartition_keys:
  "mapForPartition env p uuid = VMap (toMap (mapForPartition env p uuid))
   \<and> distinct (map fst (toMap (mapForPartition env p uuid)))
   \<and> keys (toMap (mapForPartition env p uuid))
       = {''device'', ''mountPoint'', ''fsName'', ''fs'', ''uuid'', ''new''}
         \<union> (if has (roles p) RoleLuks \<and> dynamic_cast_luks (fileSystem p) \<noteq> None
            then {''luksMapperName'', ''luksUuid'', ''luksPassphrase''} else {})"
  using mapForPartition_is_map mapForPartition_distinct mapForPartition_keys_eq
  by (intro conjI)

theorem mapForPartition_keys_witness:
  "has (roles example_luks) RoleLuks
   \<and> dynamic_cast_luks (fileSystem example_luks) \<noteq> None
   \<and> keys (toMap (mapForPartition example_env example_luks []))
       = {''luksMapperName'', ''luksUuid'', ''luksPassphrase'',
          ''device'', ''mountPoint'', ''fsName'', ''fs'', ''uuid'', ''new''}
   \<and> has (roles (example_luks\<lparr>fileSystem := PlainFS 4\<rparr>)) RoleLuks
   \<and> dynamic_cast_luks (fileSystem (example_luks\<lparr>fileSystem := PlainFS 4\<rparr>)) = None
   \<and> keys (toMap (mapForPartition example_env (example_luks\<lparr>fileSystem := PlainFS 4\<rparr>) []))
       = {''device'', ''mountPoint'', ''fsName'', ''fs'', ''uuid'', ''new''}"
  using mapForPartition_keys [of example_env example_luks "[]"]
        mapForPartition_keys [of example_env "example_luks\<lparr>fileSystem := PlainFS 4\<rparr>" "[]"]
  by (simp add: example_luks_def has_def)

text \<open>
  C1, as the code has it: for a partition whose filesystem is a LUKS container (an
  \<open>FS::luks\<close> object) with an inner filesystem, the display name \<open>fsName\<close> of the record is
  the one of the outer container, and the canonical name \<open>fs\<close> is the inner filesystem's
  when the container reports the type \<open>Luks\<close>, and the container's own otherwise: only
  \<open>fs\<close> is assigned a second time, and only behind the test of the type.
\<close>

theorem mapForPartition_luks_inner:
  "dynamic_cast_luks (fileSystem p) \<noteq> None \<Longrightarrow> innerFS (fileSystem p) = Some inner \<Longrightarrow>
     qvalue (toMap (mapForPartition env p uuid)) ''fsName''
       = VString (userVisibleFS env (fileSystem p))
     \<and> qvalue (toMap (mapForPartition env p uuid)) ''fs''
         = VString (if fs_type (fileSystem p) = Luks then untranslatedFS env inner
                    else untranslatedFS env (fileSystem p))"
  by (simp add: mapForPartition_def Let_def qvalue_update split: option.splits
      del: AList.update.simps)

theorem mapForPartition_luks_inner_witness:
  "dynamic_cast_luks (fileSystem example_luks) \<noteq> None
   \<and> innerFS (fileSystem example_luks) = Some (PlainFS 4)
   \<and> fs_type (fileSystem example_luks) = Luks
   \<and> qvalue (toMap (mapForPartition example_env example_luks [])) ''fsName'' = VString ''luks''
   \<and> qvalue (toMap (mapForPartition example_env example_luks [])) ''fs'' = VString ''ext4''
   \<and> dynamic_cast_luks (fileSystem example_luks2) \<noteq> None
   \<and> innerFS (fileSystem example_luks2) = Some (PlainFS 4)
   \<and> fs_type (fileSystem example_luks2) \<noteq> Luks
   \<and> qvalue (toMap (mapForPartition example_env example_luks2 [])) ''fsName'' = VString ''luks2''
   \<and> qvalue (toMap (mapForPartition example_env example_luks2 [])) ''fs'' = VString ''luks2''"
  using mapForPartition_luks_inner [of example_luks "PlainFS 4" example_env "[]"]
        mapForPartition_luks_inner [of example_luks2 "PlainFS 4" example_env "[]"]
  by (simp add: example_luks_def example_luks2_def example_env_def example_fs_name_def)

text \<open>
  C1, as stated, fails in both fields. The LUKS container of the example holds an ext4
  filesystem, and its record shows \<open>luks\<close>, the container's display name, under
  \<open>fsName\<close>; the LUKS2 container holds an ext4 filesystem too, and its record shows
  \<open>luks2\<close>, the container's canonical name, under \<open>fs\<close>.
\<close>

theorem mapForPartition_fsName_counterexample:
  "dynamic_cast_luks (fileSystem example_luks) \<noteq> None
   \<and> innerFS (fileSystem example_luks) = Some (PlainFS 4)
   \<and> userVisibleFS example_env (PlainFS 4) = ''ext4''
   \<and> qvalue (toMap (mapForPartition example_env example_luks [])) ''fsName'' = VString ''luks''
   \<and> qvalue (toMap (mapForPartition example_env example_luks [])) ''fsName''
       \<noteq> VString (userVisibleFS example_env (PlainFS 4))
   \<and> dynamic_cast_luks (fileSystem example_luks2) \<noteq> None
   \<and> innerFS (fileSystem example_luks2) = Some (PlainFS 4)
   \<and> untranslatedFS example_env (PlainFS 4) = ''ext4''
   \<and> qvalue (toMap (mapForPartition example_env example_luks2 [])) ''fs'' = VString ''luks2''
   \<and> qvalue (toMap (mapForPartition example_env example_luks2 [])) ''fs''
       \<noteq> VString (untranslatedFS example_env (PlainFS 4))"
  by (simp add: example_luks_record example_luks2_record qvalue_def)
     (simp add: example_luks_def example_luks2_def example_env_def example_fs_name_def)

subsection \<open>The partition list and the UUID lookup\<close>

lemma fold_snoc_map: "fold (\<lambda>x acc. acc @ [f x]) xs acc = acc @ map f xs"
  by (induction xs arbitrary: acc) simp_all

lemma fold_fold_snoc_map:
  "fold (\<lambda>d acc. fold (\<lambda>x acc. acc @ [f x]) (g d) acc) ds acc = acc @ map f (concat (map g ds))"
  by (induction ds arbitrary: acc) (simp_all add: fold_snoc_map)

lemma createPartitionList_eq:
  "createPartitionList env devices =
     VList (map (\<lambda>p. mapForPartition env p
                        (hash_value (findPartitionUuids env devices) (partitionPath p)))
              (concat (map partitions devices)))"
  by (simp add: createPartitionList_def Let_def fold_fold_snoc_map)

lemma fold_upd_map_of:
  "fold (\<lambda>x h. h(k x \<mapsto> v x)) xs h = h ++ map_of (rev (map (\<lambda>x. (k x, v x)) xs))"
proof (induction xs arbitrary: h)
  case Nil
  then show ?case by simp
next
  case (Cons x xs)
  have "fold (\<lambda>x h. h(k x \<mapsto> v x)) (x # xs) h = fold (\<lambda>x h. h(k x \<mapsto> v x)) xs (h(k x \<mapsto> v x))"
    by (simp only: fold_simps)
  also have "\<dots> = h(k x \<mapsto> v x) ++ map_of (rev (map (\<lambda>x. (k x, v x)) xs))"
    by (rule Cons.IH)
  also have "\<dots> = h ++ ([k x \<mapsto> v x] ++ map_of (rev (map (\<lambda>x. (k x, v x)) xs)))"
    by (metis map_add_assoc map_add_empty map_add_upd)
  also have "\<dots> = h ++ map_of (rev (map (\<lambda>x. (k x, v x)) (x # xs)))"
    by (simp add: map_of_append)
  finally show ?case .
qed

lemma fold_fold_upd_map_of:
  "fold (\<lambda>d h. fold (\<lambda>x h. h(k x \<mapsto> v x)) (g d) h) ds h
     = h ++ map_of (rev (map (\<lambda>x. (k x, v x)) (concat (map g ds))))"
proof (induction ds arbitrary: h)
  case Nil
  then show ?case by simp
next
  case (Cons d ds)
  have "fold (\<lambda>d h. fold (\<lambda>x h. h(k x \<mapsto> v x)) (g d) h) (d # ds) h
        = fold (\<lambda>d h. fold (\<lambda>x h. h(k x \<mapsto> v x)) (g d) h) ds
            (fold (\<lambda>x h. h(k x \<mapsto> v x)) (g d) h)"
    by (simp only: fold_simps)
  also have "\<dots> = fold (\<lambda>x h. h(k x \<mapsto> v x)) (g d) h
                   ++ map_of (rev (map (\<lambda>x. (k x, v x)) (concat (map g ds))))"
    by (rule Cons.IH)
  also have "\<dots> = (h ++ map_of (rev (map (\<lambda>x. (k x, v x)) (g d))))
                   ++ map_of (rev (map (\<lambda>x. (k x, v x)) (concat (map g ds))))"
    by (simp only: fold_upd_map_of)
  also have "\<dots> = h ++ map_of (rev (map (\<lambda>x. (k x, v x)) (concat (map g (d # ds)))))"
    by (simp add: map_of_append)
  finally show ?case .
qed

lemma findPartitionUuids_eq:
  "findPartitionUuids env devices =
     map_of (rev (map (\<lambda>p. (partitionPath p, readUUID env (fileSystem p) (partitionPath p)))
                    (concat (map partitions devices))))"
  unfolding findPartitionUuids_def Let_def
  by (simp only: fold_fold_upd_map_of empty_map_add)

lemma example_root_record:
  "mapForPartition example_env example_root ''1111-2222'' =
     VMap [(''device'', VString ''/dev/sda1''), (''mountPoint'', VString ''/''),
           (''fsName'', VString ''ext4''), (''fs'', VString ''ext4''),
           (''uuid'', VString ''1111-2222''), (''new'', VBool False)]"
  by (simp add: mapForPartition_def example_env_def example_root_def example_fs_name_def has_def)

lemma example_new_record:
  "mapForPartition example_env
      (example_root\<lparr>partitionPath := [], mountPoint := ''/var'', state := StateNew\<rparr>) [] =
     VMap [(''device'', VString []), (''mountPoint'', VString ''/var''),
           (''fsName'', VString ''ext4''), (''fs'', VString ''ext4''),
           (''uuid'', VString []), (''new'', VBool True)]"
  by (simp add: mapForPartition_def example_env_def example_root_def example_fs_name_def has_def)

lemma example_unmounted_record:
  "mapForPartition example_env (example_root\<lparr>mountPoint := []\<rparr>) ''1111-2222'' =
     VMap [(''device'', VString ''/dev/sda1''), (''mountPoint'', VString []),
           (''fsName'', VString ''ext4''), (''fs'', VString ''ext4''),
           (''uuid'', VString ''1111-2222''), (''new'', VBool False)]"
  by (simp add: mapForPartition_def example_env_def example_root_def example_fs_name_def has_def)

subsection \<open>Resolving the boot loader path\<close>

lemma findPartitionByMountPoint_None:
  "findPartitionByMountPoint devices mp = None
     \<longleftrightarrow> (\<forall>device\<in>set devices. \<forall>p\<in>set (partitions device). mountPoint p \<noteq> mp)"
  by (auto simp: findPartitionByMountPoint_def find_None_iff)

lemma createBootLoaderMap_cases:
  "createBootLoaderMap devices path = Invalid
   \<or> (\<exists>installPath. createBootLoaderMap devices path = VMap [(''installPath'', VString installPath)])"
  by (simp add: createBootLoaderMap_def split: option.splits)

lemma createBootLoaderMap_Invalid:
  "createBootLoaderMap devices path = Invalid
     \<longleftrightarrow> \<not> startsWith path ''/dev/'' \<and> findPartitionByMountPoint devices path = None"
  by (simp add: createBootLoaderMap_def split: option.splits)

lemma example_no_boot:
  "\<forall>device\<in>set example_devices. \<forall>p\<in>set (partitions device). mountPoint p \<noteq> ''/boot''"
  by (simp add: example_devices_def example_root_def example_luks_def)

lemma example_home: "findPartitionByMountPoint example_devices ''/home'' = Some example_luks"
  by (simp add: findPartitionByMountPoint_def example_devices_def example_root_def example_luks_def)

subsection \<open>Running the job\<close>

lemma exec_fst:
  "fst (exec env devices path storage) =
     storage(''partitions'' \<mapsto> createPartitionList env devices,
             ''bootLoader'' \<mapsto> (if path = [] then Invalid else createBootLoaderMap devices path))"
  by (simp add: exec_def insert_gs_def Let_def)

lemma exec_snd: "snd (exec env devices path storage) = ok"
  by (simp add: exec_def Let_def)

text \<open>
  C2: \<open>exec\<close> returns the success result for every environment, device list, boot loader
  path and previous storage: with UUIDs missing, with the LUKS UUID query failing, with a
  boot loader mount point that no partition has.
\<close>

theorem exec_always_ok:
  "snd (exec env devices bootLoaderPath storage) = ok"
  by (simp add: exec_def Let_def)

theorem exec_always_ok_witness:
  "findPartitionByMountPoint example_devices ''/boot'' = None
   \<and> hash_value (findPartitionUuids example_env example_devices) ''/dev/sda2'' = []
   \<and> getLuksUuid example_env ''/dev/sda1'' = []
   \<and> snd (exec example_env example_devices ''/boot'' Map.empty) = ok"
  using exec_always_ok [of example_env example_devices "''/boot''" Map.empty]
  by (simp add: findPartitionByMountPoint_None example_no_boot findPartitionUuids_eq
      hash_value_def example_devices_def example_root_def example_luks_def example_env_def
      getLuksUuid_def example_run_def)

text \<open>
  C3: for a non-empty boot loader path that does not start with \<open>/dev/\<close> and is the
  mount point of no partition of the given devices, \<open>createBootLoaderMap\<close> returns the
  invalid value, and \<open>exec\<close> stores that value under \<open>bootLoader\<close> and succeeds.
\<close>

theorem exec_unresolved_bootloader:
  assumes "bootLoaderPath \<noteq> []"
    and "\<not> startsWith bootLoaderPath ''/dev/''"
    and "\<forall>device\<in>set devices. \<forall>p\<in>set (partitions device). mountPoint p \<noteq> bootLoaderPath"
  shows "createBootLoaderMap devices bootLoaderPath = Invalid
         \<and> \<not> isValid (createBootLoaderMap devices bootLoaderPath)
         \<and> fst (exec env devices bootLoaderPath storage) ''bootLoader'' = Some Invalid
         \<and> snd (exec env devices bootLoaderPath storage) = ok"
proof -
  from assms(3) have "findPartitionByMountPoint devices bootLoaderPath = None"
    by (simp only: findPartitionByMountPoint_None)
  with assms(2) have inv: "createBootLoaderMap devices bootLoaderPath = Invalid"
    by (simp only: createBootLoaderMap_Invalid simp_thms)
  with assms(1) show ?thesis
    by (simp add: exec_fst exec_snd isValid_def)
qed

theorem exec_unresolved_bootloader_witness:
  "''/boot'' \<noteq> []
   \<and> \<not> startsWith ''/boot'' ''/dev/''
   \<and> concat (map partitions example_devices) = [example_root, example_luks]
   \<and> mountPoint example_root \<noteq> ''/boot''
   \<and> mountPoint example_luks \<noteq> ''/boot''
   \<and> createBootLoaderMap example_devices ''/boot'' = Invalid
   \<and> fst (exec example_env example_devices ''/boot'' Map.empty) ''bootLoader'' = Some Invalid
   \<and> snd (exec example_env example_devices ''/boot'' Map.empty) = ok"
proof -
  have 1: "''/boot'' \<noteq> []" by simp
  have 2: "\<not> startsWith ''/boot'' ''/dev/''" by simp
  note 3 = example_no_boot
  from exec_unresolved_bootloader [OF 1 2 3, of example_env Map.empty]
  show ?thesis by (simp add: example_devices_def example_root_def example_luks_def)
qed

text \<open>
  C6: \<open>exec\<close> changes the storage at the keys \<open>partitions\<close> and \<open>bootLoader\<close> and nowhere
  else, whatever was stored there before. \<open>partitions\<close> receives one record per partition,
  in the order of the devices and of the partitions on each device; \<open>bootLoader\<close> receives
  a record holding \<open>installPath\<close> or the invalid value, the invalid value exactly when the
  boot loader path is empty or is a mount point that resolves to no partition.
\<close>

theorem exec_storage:
  "fst (exec env devices bootLoaderPath storage) =
     storage(''partitions'' \<mapsto>
               VList (map (\<lambda>p. mapForPartition env p
                                  (hash_value (findPartitionUuids env devices) (partitionPath p)))
                        (concat (map partitions devices))),
             ''bootLoader'' \<mapsto>
               (if bootLoaderPath = [] then Invalid
                else createBootLoaderMap devices bootLoaderPath))
   \<and> (createBootLoaderMap devices bootLoaderPath = Invalid
      \<or> (\<exists>installPath. createBootLoaderMap devices bootLoaderPath
                           = VMap [(''installPath'', VString installPath)]))
   \<and> (fst (exec env devices bootLoaderPath storage) ''bootLoader'' = Some Invalid
        \<longleftrightarrow> bootLoaderPath = []
            \<or> (\<not> startsWith bootLoaderPath ''/dev/''
               \<and> findPartitionByMountPoint devices bootLoaderPath = None))
   \<and> (\<forall>k. k \<noteq> ''partitions'' \<and> k \<noteq> ''bootLoader''
          \<longrightarrow> fst (exec env devices bootLoaderPath storage) k = storage k)"
proof (intro conjI)
  show "fst (exec env devices bootLoaderPath storage) =
     storage(''partitions'' \<mapsto>
               VList (map (\<lambda>p. mapForPartition env p
                                  (hash_value (findPartitionUuids env devices) (partitionPath p)))
                        (concat (map partitions devices))),
             ''bootLoader'' \<mapsto>
               (if bootLoaderPath = [] then Invalid
                else createBootLoaderMap devices bootLoaderPath))"
    by (simp only: exec_fst createPartitionList_eq)
  show "createBootLoaderMap devices bootLoaderPath = Invalid
      \<or> (\<exists>installPath. createBootLoaderMap devices bootLoaderPath
                           = VMap [(''installPath'', VString installPath)])"
    by (rule createBootLoaderMap_cases)
  show "fst (exec env devices bootLoaderPath storage) ''bootLoader'' = Some Invalid
        \<longleftrightarrow> bootLoaderPath = []
            \<or> (\<not> startsWith bootLoaderPath ''/dev/''
               \<and> findPartitionByMountPoint devices bootLoaderPath = None)"
    by (simp add: exec_fst createBootLoaderMap_Invalid)
  show "\<forall>k. k \<noteq> ''partitions'' \<and> k \<noteq> ''bootLoader''
          \<longrightarrow> fst (exec env devices bootLoaderPath storage) k = storage k"
    by (simp add: exec_fst)
qed

theorem exec_storage_witness:
  "''rootMountPoint'' \<noteq> ''partitions'' \<and> ''rootMountPoint'' \<noteq> ''bootLoader''
   \<and> fst (exec example_env example_devices ''/home''
             [''rootMountPoint'' \<mapsto> VString ''/tmp/root'', ''bootLoader'' \<mapsto> VBool True])
        ''rootMountPoint'' = Some (VString ''/tmp/root'')
   \<and> fst (exec example_env example_devices ''/home''
             [''rootMountPoint'' \<mapsto> VString ''/tmp/root'', ''bootLoader'' \<mapsto> VBool True])
        ''bootLoader'' = Some (VMap [(''installPath'', VString ''/dev/sda2'')])
   \<and> fst (exec example_env example_devices ''/home''
             [''rootMountPoint'' \<mapsto> VString ''/tmp/root'', ''bootLoader'' \<mapsto> VBool True])
        ''partitions''
       = Some (VList [mapForPartition example_env example_root ''1111-2222'',
                      mapForPartition example_env example_luks []])"
  using exec_storage [of example_env example_devices "''/home''"
          "[''rootMountPoint'' \<mapsto> VString ''/tmp/root'', ''bootLoader'' \<mapsto> VBool True]"]
  by (simp add: createBootLoaderMap_def example_home)
     (simp add: example_devices_def example_luks_def example_root_def findPartitionUuids_eq
        hash_value_def example_env_def)

text \<open>
  C8: with the same environment, devices and boot loader path, running the job on the
  storage left by a first run gives that storage and the same result again; and two runs
  store the same partition list and the same boot loader record, whatever the storage held
  before each of them.
\<close>

theorem exec_idempotent:
  "exec env devices bootLoaderPath (fst (exec env devices bootLoaderPath storage))
     = exec env devices bootLoaderPath storage
   \<and> fst (exec env devices bootLoaderPath storage) ''partitions''
       = fst (exec env devices bootLoaderPath storage') ''partitions''
   \<and> fst (exec env devices bootLoaderPath storage) ''bootLoader''
       = fst (exec env devices bootLoaderPath storage') ''bootLoader''"
  by (simp add: exec_def insert_gs_def Let_def)

theorem exec_idempotent_witness:
  "exec example_env example_devices ''/home''
      (fst (exec example_env example_devices ''/home'' [''bootLoader'' \<mapsto> VBool True]))
     = exec example_env example_devices ''/home'' [''bootLoader'' \<mapsto> VBool True]
   \<and> fst (exec example_env example_devices ''/home'' [''bootLoader'' \<mapsto> VBool True]) ''bootLoader''
       = Some (VMap [(''installPath'', VString ''/dev/sda2'')])"
  using exec_idempotent [of example_env example_devices "''/home''" "[''bootLoader'' \<mapsto> VBool True]" Map.empty]
  by (simp add: exec_fst createBootLoaderMap_def example_home)
     (simp add: example_luks_def)

subsection \<open>The description\<close>

lemma fold_snoc_option:
  "fold (\<lambda>x acc. case f x of None \<Rightarrow> acc | Some y \<Rightarrow> acc @ [y]) xs acc
     = acc @ List.map_filter f xs"
  by (induction xs arbitrary: acc) (simp_all add: map_filter_simps split: option.splits)

lemma prettyDescription_lines_eq:
  "prettyDescription_lines env devices bootLoaderPath =
     List.map_filter (partitionLine env) (toList (createPartitionList env devices))
     @ (if bootLoaderPath \<noteq> []
        then [Line ''Install boot loader on <strong>%1</strong>.'' [bootLoaderPath]] else [])"
  by (simp add: prettyDescription_lines_def Let_def fold_snoc_option)

lemma phrasing_new_system:
  "systemPartitionPhrasing (Line ''Install %1 on <strong>new</strong> %2 system partition.'' as)"
  "newPhrasing (Line ''Install %1 on <strong>new</strong> %2 system partition.'' as)"
  by (simp_all add: systemPartitionPhrasing_def newPhrasing_def)

lemma phrasing_new_other:
  "\<not> systemPartitionPhrasing
       (Line ''Set up <strong>new</strong> %2 partition with mount point <strong>%1</strong>.'' as)"
  "newPhrasing
       (Line ''Set up <strong>new</strong> %2 partition with mount point <strong>%1</strong>.'' as)"
  by (simp_all add: systemPartitionPhrasing_def newPhrasing_def)

lemma phrasing_old_system:
  "systemPartitionPhrasing (Line ''Install %2 on %3 system partition <strong>%1</strong>.'' as)"
  "\<not> newPhrasing (Line ''Install %2 on %3 system partition <strong>%1</strong>.'' as)"
  by (simp_all add: systemPartitionPhrasing_def newPhrasing_def)

lemma phrasing_old_other:
  "\<not> systemPartitionPhrasing
       (Line ''Set up %3 partition <strong>%1</strong> with mount point <strong>%2</strong>.'' as)"
  "\<not> newPhrasing
       (Line ''Set up %3 partition <strong>%1</strong> with mount point <strong>%2</strong>.'' as)"
  by (simp_all add: systemPartitionPhrasing_def newPhrasing_def)

lemmas phrasing = phrasing_new_system phrasing_new_other phrasing_old_system phrasing_old_other

lemma join_contains:
  "l \<in> set ls \<Longrightarrow> \<exists>before after. join ls sep = before @ l @ after"
proof (induction ls sep rule: join.induct)
  case (1 sep)
  then show ?case by simp
next
  case (2 x sep)
  then have "join [x] sep = [] @ l @ []" by simp
  then show ?case by blast
next
  case (3 x y ys sep)
  show ?case
  proof (cases "l = x")
    case True
    then have "join (x # y # ys) sep = [] @ l @ (sep @ join (y # ys) sep)" by simp
    then show ?thesis by blast
  next
    case False
    with 3 obtain before after where "join (y # ys) sep = before @ l @ after" by auto
    then have "join (x # y # ys) sep = (x @ sep @ before) @ l @ after" by simp
    then show ?thesis by blast
  qed
qed

lemma map_filter_member:
  "x \<in> set xs \<Longrightarrow> f x = Some y \<Longrightarrow> y \<in> set (List.map_filter f xs)"
  by (force simp: map_filter_def)

lemma prettyDescription_contains:
  assumes "item \<in> set (toList (createPartitionList env devices))"
    and "partitionLine env item = Some l"
  shows "\<exists>before after. prettyDescription env devices bootLoaderPath = before @ render env l @ after"
proof -
  from assms have "l \<in> set (prettyDescription_lines env devices bootLoaderPath)"
    by (simp add: prettyDescription_lines_eq map_filter_member)
  then have "render env l \<in> set (map (render env) (prettyDescription_lines env devices bootLoaderPath))"
    by simp
  then show ?thesis unfolding prettyDescription_def by (rule join_contains)
qed

lemma createPartitionList_items:
  "item \<in> set (toList (createPartitionList env devices)) \<Longrightarrow> item = VMap (toMap item)"
  using mapForPartition_is_map by (auto simp: createPartitionList_eq)

lemma example_lines:
  "List.map_filter (partitionLine example_env) (toList (createPartitionList example_env example_devices))
   = [Line ''Install %2 on %3 system partition <strong>%1</strong>.''
         [''/dev/sda1'', ''Linux'', ''ext4''],
      Line ''Set up %3 partition <strong>%1</strong> with mount point <strong>%2</strong>.''
         [''/dev/sda2'', ''/home'', ''ext4'']]"
proof -
  have "createPartitionList example_env example_devices =
          VList [mapForPartition example_env example_root ''1111-2222'',
                 mapForPartition example_env example_luks []]"
    by (simp add: createPartitionList_eq findPartitionUuids_eq hash_value_def)
       (simp add: example_devices_def example_root_def example_luks_def example_env_def)
  then show ?thesis
    by (simp add: example_root_record example_luks_record map_filter_simps qvalue_def)
       (simp add: example_env_def)
qed

lemma example_render:
  "render example_env (Line ''Install %2 on %3 system partition <strong>%1</strong>.''
         [''/dev/sda1'', ''Linux'', ''ext4''])
     = ''Install Linux on ext4 system partition <strong>/dev/sda1</strong>.''"
  "render example_env
      (Line ''Set up %3 partition <strong>%1</strong> with mount point <strong>%2</strong>.''
         [''/dev/sda2'', ''/home'', ''ext4''])
     = ''Set up ext4 partition <strong>/dev/sda2</strong> with mount point <strong>/home</strong>.''"
  by (simp_all add: render_def example_env_def QString_arg_def marker_def digitValue_def
      map_filter_simps)

text \<open>
  C7: the text \<open>prettyDescription\<close> returns is its lines, rendered and joined, and the
  partition lines are the lines of the records of the partition list, in order. A record
  of the list whose mount point is \<open>/\<close> and whose filesystem name (the field \<open>fs\<close>, the one
  the description reads) is not empty gives a line that speaks of the system partition,
  and every line a record gives is part of the returned text. For any record: with
  another mount point it gives no line that speaks of the system partition; with an empty
  mount point or an empty filesystem name it gives no line; and its line speaks of a new
  partition exactly when its device path is empty.
\<close>

theorem prettyDescription_phrasing:
  "prettyDescription env devices bootLoaderPath =
     join (map (render env) (prettyDescription_lines env devices bootLoaderPath)) ''<br/>''
   \<and> prettyDescription_lines env devices bootLoaderPath =
     List.map_filter (partitionLine env) (toList (createPartitionList env devices))
     @ (if bootLoaderPath \<noteq> []
        then [Line ''Install boot loader on <strong>%1</strong>.'' [bootLoaderPath]] else [])
   \<and> (\<forall>item\<in>set (toList (createPartitionList env devices)).
         (toString (qvalue (toMap item) ''mountPoint'') = ''/''
            \<and> toString (qvalue (toMap item) ''fs'') \<noteq> []
          \<longrightarrow> (\<exists>l before after. partitionLine env item = Some l \<and> systemPartitionPhrasing l
                \<and> prettyDescription env devices bootLoaderPath = before @ render env l @ after))
         \<and> (\<forall>l. partitionLine env item = Some l
              \<longrightarrow> (\<exists>before after.
                     prettyDescription env devices bootLoaderPath = before @ render env l @ after)))
   \<and> (toString (qvalue m ''mountPoint'') = ''/'' \<and> toString (qvalue m ''fs'') \<noteq> []
        \<longrightarrow> (\<exists>l. partitionLine env (VMap m) = Some l \<and> systemPartitionPhrasing l))
   \<and> (toString (qvalue m ''mountPoint'') \<noteq> ''/''
        \<longrightarrow> (\<forall>l. partitionLine env (VMap m) = Some l \<longrightarrow> \<not> systemPartitionPhrasing l))
   \<and> (toString (qvalue m ''mountPoint'') = [] \<or> toString (qvalue m ''fs'') = []
        \<longrightarrow> partitionLine env (VMap m) = None)
   \<and> (\<forall>l. partitionLine env (VMap m) = Some l
          \<longrightarrow> (newPhrasing l \<longleftrightarrow> toString (qvalue m ''device'') = []))"
proof (intro conjI ballI)
  show "prettyDescription env devices bootLoaderPath =
     join (map (render env) (prettyDescription_lines env devices bootLoaderPath)) ''<br/>''"
    by (rule prettyDescription_def)
  show "prettyDescription_lines env devices bootLoaderPath =
     List.map_filter (partitionLine env) (toList (createPartitionList env devices))
     @ (if bootLoaderPath \<noteq> []
        then [Line ''Install boot loader on <strong>%1</strong>.'' [bootLoaderPath]] else [])"
    by (rule prettyDescription_lines_eq)
  show "toString (qvalue m ''mountPoint'') = ''/'' \<and> toString (qvalue m ''fs'') \<noteq> []
        \<longrightarrow> (\<exists>l. partitionLine env (VMap m) = Some l \<and> systemPartitionPhrasing l)"
    by (simp add: Let_def phrasing)
  show "toString (qvalue m ''mountPoint'') \<noteq> ''/''
        \<longrightarrow> (\<forall>l. partitionLine env (VMap m) = Some l \<longrightarrow> \<not> systemPartitionPhrasing l)"
    by (auto simp: Let_def phrasing split: if_splits)
  show "toString (qvalue m ''mountPoint'') = [] \<or> toString (qvalue m ''fs'') = []
        \<longrightarrow> partitionLine env (VMap m) = None"
    by (simp add: Let_def)
  show "\<forall>l. partitionLine env (VMap m) = Some l
          \<longrightarrow> (newPhrasing l \<longleftrightarrow> toString (qvalue m ''device'') = [])"
    by (auto simp: Let_def phrasing split: if_splits)
next
  fix item
  assume item: "item \<in> set (toList (createPartitionList env devices))"
  then have shape: "item = VMap (toMap item)" by (rule createPartitionList_items)
  show "\<forall>l. partitionLine env item = Some l
              \<longrightarrow> (\<exists>before after.
                     prettyDescription env devices bootLoaderPath = before @ render env l @ after)"
    using item prettyDescription_contains by blast
  show "toString (qvalue (toMap item) ''mountPoint'') = ''/''
            \<and> toString (qvalue (toMap item) ''fs'') \<noteq> []
          \<longrightarrow> (\<exists>l before after. partitionLine env item = Some l \<and> systemPartitionPhrasing l
                \<and> prettyDescription env devices bootLoaderPath = before @ render env l @ after)"
  proof
    assume "toString (qvalue (toMap item) ''mountPoint'') = ''/''
            \<and> toString (qvalue (toMap item) ''fs'') \<noteq> []"
    then have "\<exists>l. partitionLine env (VMap (toMap item)) = Some l \<and> systemPartitionPhrasing l"
      by (simp add: Let_def phrasing)
    with shape obtain l where l: "partitionLine env item = Some l" "systemPartitionPhrasing l"
      by metis
    from item l(1) obtain before after
      where "prettyDescription env devices bootLoaderPath = before @ render env l @ after"
      using prettyDescription_contains by blast
    with l show "\<exists>l before after. partitionLine env item = Some l \<and> systemPartitionPhrasing l
                \<and> prettyDescription env devices bootLoaderPath = before @ render env l @ after"
      by blast
  qed
qed


theorem prettyDescription_phrasing_witness:
  "prettyDescription example_env example_devices []
     = ''Install Linux on ext4 system partition <strong>/dev/sda1</strong>.'' @ ''<br/>''
       @ ''Set up ext4 partition <strong>/dev/sda2</strong> with mount point <strong>/home</strong>.''
   \<and> partitionLine example_env (mapForPartition example_env example_root ''1111-2222'')
     = Some (Line ''Install %2 on %3 system partition <strong>%1</strong>.''
               [''/dev/sda1'', ''Linux'', ''ext4''])
   \<and> systemPartitionPhrasing (Line ''Install %2 on %3 system partition <strong>%1</strong>.''
               [''/dev/sda1'', ''Linux'', ''ext4''])
   \<and> \<not> newPhrasing (Line ''Install %2 on %3 system partition <strong>%1</strong>.''
               [''/dev/sda1'', ''Linux'', ''ext4''])
   \<and> partitionLine example_env
        (mapForPartition example_env
           (example_root\<lparr>partitionPath := [], mountPoint := ''/var'', state := StateNew\<rparr>) [])
     = Some (Line ''Set up <strong>new</strong> %2 partition with mount point <strong>%1</strong>.''
               [''/var'', ''ext4''])
   \<and> \<not> systemPartitionPhrasing
         (Line ''Set up <strong>new</strong> %2 partition with mount point <strong>%1</strong>.''
               [''/var'', ''ext4''])
   \<and> newPhrasing
         (Line ''Set up <strong>new</strong> %2 partition with mount point <strong>%1</strong>.''
               [''/var'', ''ext4''])
   \<and> partitionLine example_env
        (mapForPartition example_env (example_root\<lparr>mountPoint := []\<rparr>) ''1111-2222'') = None"
proof -
  note root = prettyDescription_phrasing [of example_env example_devices "[]"
      "toMap (mapForPartition example_env example_root ''1111-2222'')"]
  note fresh = prettyDescription_phrasing [of example_env example_devices "[]"
      "toMap (mapForPartition example_env
           (example_root\<lparr>partitionPath := [], mountPoint := ''/var'', state := StateNew\<rparr>) [])"]
  note unmounted = prettyDescription_phrasing [of example_env example_devices "[]"
      "toMap (mapForPartition example_env (example_root\<lparr>mountPoint := []\<rparr>) ''1111-2222'')"]
  from root [THEN conjunct1] root [THEN conjunct2, THEN conjunct1]
  have whole: "prettyDescription example_env example_devices []
     = ''Install Linux on ext4 system partition <strong>/dev/sda1</strong>.'' @ ''<br/>''
       @ ''Set up ext4 partition <strong>/dev/sda2</strong> with mount point <strong>/home</strong>.''"
    by (simp add: example_lines example_render)
  from root [THEN conjunct2, THEN conjunct2, THEN conjunct2]
       fresh [THEN conjunct2, THEN conjunct2, THEN conjunct2]
       unmounted [THEN conjunct2, THEN conjunct2, THEN conjunct2]
  have "partitionLine example_env (mapForPartition example_env example_root ''1111-2222'')
     = Some (Line ''Install %2 on %3 system partition <strong>%1</strong>.''
               [''/dev/sda1'', ''Linux'', ''ext4''])
   \<and> systemPartitionPhrasing (Line ''Install %2 on %3 system partition <strong>%1</strong>.''
               [''/dev/sda1'', ''Linux'', ''ext4''])
   \<and> \<not> newPhrasing (Line ''Install %2 on %3 system partition <strong>%1</strong>.''
               [''/dev/sda1'', ''Linux'', ''ext4''])
   \<and> partitionLine example_env
        (mapForPartition example_env
           (example_root\<lparr>partitionPath := [], mountPoint := ''/var'', state := StateNew\<rparr>) [])
     = Some (Line ''Set up <strong>new</strong> %2 partition with mount point <strong>%1</strong>.''
               [''/var'', ''ext4''])
   \<and> \<not> systemPartitionPhrasing
         (Line ''Set up <strong>new</strong> %2 partition with mount point <strong>%1</strong>.''
               [''/var'', ''ext4''])
   \<and> newPhrasing
         (Line ''Set up <strong>new</strong> %2 partition with mount point <strong>%1</strong>.''
               [''/var'', ''ext4''])
   \<and> partitionLine example_env
        (mapForPartition example_env (example_root\<lparr>mountPoint := []\<rparr>) ''1111-2222'') = None"
    by (simp add: example_root_record example_new_record example_unmounted_record qvalue_def)
       (simp add: example_env_def)
  with whole show ?thesis by (rule conjI)
qed

lemma join_snoc:
  "join (xs @ [x]) sep = (if xs = [] then x else join xs sep @ sep @ x)"
  by (induction xs sep rule: join.induct) simp_all

text \<open>
  C9: for a non-empty boot loader path the description ends with the line
  \<open>Install boot loader on <strong>%1</strong>.\<close> filled with the path as configured, and
  the returned text ends with that line rendered. The value of \<open>createBootLoaderMap\<close> has
  no part in it: when the path is a mount point that resolves to no partition, the line is
  there all the same, while \<open>exec\<close> stores the invalid value under \<open>bootLoader\<close>.
\<close>

theorem prettyDescription_bootloader_line:
  assumes "bootLoaderPath \<noteq> []"
  shows "prettyDescription_lines env devices bootLoaderPath =
           List.map_filter (partitionLine env) (toList (createPartitionList env devices))
           @ [Line ''Install boot loader on <strong>%1</strong>.'' [bootLoaderPath]]
         \<and> (\<exists>before. prettyDescription env devices bootLoaderPath
               = before @ QString_arg (tr env ''Install boot loader on <strong>%1</strong>.'')
                            bootLoaderPath)
         \<and> (\<not> startsWith bootLoaderPath ''/dev/''
              \<and> findPartitionByMountPoint devices bootLoaderPath = None
            \<longrightarrow> createBootLoaderMap devices bootLoaderPath = Invalid
                \<and> fst (exec env devices bootLoaderPath storage) ''bootLoader'' = Some Invalid)"
proof (intro conjI impI)
  show eq: "prettyDescription_lines env devices bootLoaderPath =
           List.map_filter (partitionLine env) (toList (createPartitionList env devices))
           @ [Line ''Install boot loader on <strong>%1</strong>.'' [bootLoaderPath]]"
    using assms by (simp add: prettyDescription_lines_eq)
  show "\<exists>before. prettyDescription env devices bootLoaderPath
               = before @ QString_arg (tr env ''Install boot loader on <strong>%1</strong>.'')
                            bootLoaderPath"
    unfolding prettyDescription_def eq
    by (simp add: join_snoc render_def del: join.simps)
  assume "\<not> startsWith bootLoaderPath ''/dev/''
              \<and> findPartitionByMountPoint devices bootLoaderPath = None"
  then show inv: "createBootLoaderMap devices bootLoaderPath = Invalid"
    by (simp add: createBootLoaderMap_Invalid)
  with assms show "fst (exec env devices bootLoaderPath storage) ''bootLoader'' = Some Invalid"
    by (simp add: exec_fst)
qed

theorem prettyDescription_bootloader_line_witness:
  "''/boot'' \<noteq> []
   \<and> \<not> startsWith ''/boot'' ''/dev/''
   \<and> findPartitionByMountPoint example_devices ''/boot'' = None
   \<and> prettyDescription_lines example_env example_devices ''/boot''
       = [Line ''Install %2 on %3 system partition <strong>%1</strong>.''
            [''/dev/sda1'', ''Linux'', ''ext4''],
          Line ''Set up %3 partition <strong>%1</strong> with mount point <strong>%2</strong>.''
            [''/dev/sda2'', ''/home'', ''ext4''],
          Line ''Install boot loader on <strong>%1</strong>.'' [''/boot'']]
   \<and> createBootLoaderMap example_devices ''/boot'' = Invalid
   \<and> fst (exec example_env example_devices ''/boot'' Map.empty) ''bootLoader'' = Some Invalid"
proof -
  have 1: "''/boot'' \<noteq> []" by simp
  have 2: "\<not> startsWith ''/boot'' ''/dev/''" by simp
  have 3: "findPartitionByMountPoint example_devices ''/boot'' = None"
    using example_no_boot by (simp only: findPartitionByMountPoint_None)
  from prettyDescription_bootloader_line [OF 1, of example_env example_devices Map.empty] 1 2 3
  show ?thesis by (simp add: example_lines)
qed

end
